theory Spec2Isabelle
  imports Main
begin

section \<open>Values, objects and schemas\<close>

text \<open>
  The script \<^verbatim>\<open>backend/seed.cjs\<close> declares four mongoose schemas and then runs
  \<^verbatim>\<open>seedDatabase()\<close> once. JavaScript values that occur in it are strings, numbers,
  booleans, ObjectIds, arrays and \<^verbatim>\<open>undefined\<close>. An object literal is a list of
  key/value pairs in the order written.
\<close>

datatype val = Undefined | Str string | Num int | Bool bool | Oid nat | Arr "val list"

type_synonym obj = "(string \<times> val) list"

text \<open>\<^verbatim>\<open>o[k]\<close>: reading a key that is not there gives \<^verbatim>\<open>undefined\<close>.\<close>

fun get :: "obj \<Rightarrow> string \<Rightarrow> val" where
  "get [] k = Undefined"
| "get ((k', v) # rest) k = (if k' = k then v else get rest k)"

text \<open>\<^verbatim>\<open>o[k] = v\<close>: an existing key keeps its place, a new key goes last.\<close>

fun assign :: "obj \<Rightarrow> string \<Rightarrow> val \<Rightarrow> obj" where
  "assign [] k v = [(k, v)]"
| "assign ((k', v') # rest) k v = (if k' = k then (k', v) # rest else (k', v') # assign rest k v)"

text \<open>
  One entry of a \<^verbatim>\<open>new mongoose.Schema({...})\<close> literal: the path's name, its
  \<^verbatim>\<open>type\<close>, and the options \<^verbatim>\<open>required\<close>, \<^verbatim>\<open>unique\<close> and
  \<^verbatim>\<open>default\<close> (\<open>Undefined\<close> when the literal gives none). The options
  \<^verbatim>\<open>index\<close>, \<^verbatim>\<open>ref\<close>, and \<^verbatim>\<open>min\<close>/\<^verbatim>\<open>max\<close> on String paths do not
  change which documents are accepted or what is stored, and are left out, as are the
  \<^verbatim>\<open>timestamps\<close> fields.
\<close>

datatype ptype = TString | TNumber | TBoolean | TObjectId | TArray ptype

datatype path = Path (pname: string) (ptype: ptype) (required: bool) (unique: bool) (dflt: val)

definition BookSchema :: "path list" where
  "BookSchema =
    [Path ''bookName'' TString True False Undefined,
     Path ''alternateTitle'' TString False False (Str ''''),
     Path ''author'' TString True False Undefined,
     Path ''language'' TString False False (Str ''''),
     Path ''publisher'' TString False False (Str ''''),
     Path ''bookCountAvailable'' TNumber True False Undefined,
     Path ''bookStatus'' TString False False (Str ''Available''),
     Path ''categories'' (TArray TObjectId) False False Undefined,
     Path ''transactions'' (TArray TObjectId) False False Undefined]"

definition BookCategorySchema :: "path list" where
  "BookCategorySchema =
    [Path ''categoryName'' TString False True Undefined,
     Path ''books'' (TArray TObjectId) False False Undefined]"

definition BookTransactionSchema :: "path list" where
  "BookTransactionSchema =
    [Path ''bookId'' TObjectId True False Undefined,
     Path ''borrowerId'' TObjectId True False Undefined,
     Path ''bookName'' TString True False Undefined,
     Path ''borrowerName'' TString True False Undefined,
     Path ''transactionType'' TString True False Undefined,
     Path ''fromDate'' TString True False Undefined,
     Path ''toDate'' TString True False Undefined,
     Path ''returnDate'' TString False False Undefined,
     Path ''transactionStatus'' TString False False (Str ''Active'')]"

definition UserSchema :: "path list" where
  "UserSchema =
    [Path ''userType'' TString True False Undefined,
     Path ''userFullName'' TString True True Undefined,
     Path ''admissionId'' TString False False Undefined,
     Path ''employeeId'' TString False False Undefined,
     Path ''age'' TNumber False False Undefined,
     Path ''gender'' TString False False Undefined,
     Path ''dob'' TString False False Undefined,
     Path ''address'' TString False False (Str ''''),
     Path ''mobileNumber'' TString True False Undefined,
     Path ''photo'' TString False False (Str ''''),
     Path ''email'' TString True True Undefined,
     Path ''password'' TString True False Undefined,
     Path ''points'' TNumber False False (Num 0),
     Path ''activeTransactions'' (TArray TObjectId) False False Undefined,
     Path ''prevTransactions'' (TArray TObjectId) False False Undefined,
     Path ''isAdmin'' TBoolean False False (Bool False)]"

section \<open>The database and the model operations the script calls\<close>

text \<open>
  mongoose, the MongoDB server and bcrypt are libraries that the script calls. The
  definitions of this section and the next give their behaviour as far as the script
  uses it.

  The four collections, named as \<^verbatim>\<open>dropCollection\<close> names them; a collection that does
  not exist is \<open>None\<close> and holds no documents. \<^verbatim>\<open>mongoose.model('Book', BookSchema)\<close>
  binds a schema to the collection with the pluralised lower-case name.
\<close>

datatype cname = books | bookcategories | booktransactions | users

type_synonym db = "cname \<Rightarrow> obj list option"

type_synonym model = "path list \<times> cname"

definition Book :: model where "Book = (BookSchema, books)"
definition BookCategory :: model where "BookCategory = (BookCategorySchema, bookcategories)"
definition BookTransaction :: model where "BookTransaction = (BookTransactionSchema, booktransactions)"
definition User :: model where "User = (UserSchema, users)"

text \<open>
  What the script's calls can throw. A server error carries the server's code: 26 is
  NamespaceNotFound, 11000 is the duplicate-key error of a unique index (the
  specification calls it \<^verbatim>\<open>Conflict\<close>). The script has no other kind of error of its
  own.
\<close>

datatype error =
    ConnectError
  | MongoServerError int
  | ValidationError "string list"
  | BcryptError

text \<open>
  \<^verbatim>\<open>new Model(o)\<close>: the document gets a fresh \<^verbatim>\<open>_id\<close> and, for every path of the
  schema in order, the value given in \<open>o\<close>, else an empty array for an array path, else the
  declared default; a path left \<^verbatim>\<open>undefined\<close> is not stored, and keys of \<open>o\<close> that are not
  paths of the schema are dropped. Values are taken to have the declared type already (the
  script's literals do), so no cast is modelled; the version key and the timestamps that
  mongoose adds are not represented.
\<close>

definition path_value :: "path \<Rightarrow> obj \<Rightarrow> val" where
  "path_value p ob =
     (if get ob (pname p) \<noteq> Undefined then get ob (pname p)
      else (case ptype p of TArray t \<Rightarrow> Arr [] | _ \<Rightarrow> dflt p))"

fun new_paths :: "path list \<Rightarrow> obj \<Rightarrow> obj" where
  "new_paths [] ob = []"
| "new_paths (p # ps) ob =
     (if path_value p ob = Undefined then new_paths ps ob
      else (pname p, path_value p ob) # new_paths ps ob)"

definition new_doc :: "path list \<Rightarrow> nat \<Rightarrow> obj \<Rightarrow> obj" where
  "new_doc schema oid ob = (''_id'', Oid oid) # new_paths schema ob"

text \<open>Documents built one after the other take consecutive identifiers.\<close>

fun new_docs :: "path list \<Rightarrow> nat \<Rightarrow> obj list \<Rightarrow> obj list" where
  "new_docs schema n [] = []"
| "new_docs schema n (ob # obs) = new_doc schema n ob # new_docs schema (Suc n) obs"

text \<open>
  Validation: a \<^verbatim>\<open>required\<close> path must hold a value, and a required String must not be
  empty. The error names the failing paths.
\<close>

fun required_ok :: "ptype \<Rightarrow> val \<Rightarrow> bool" where
  "required_ok t Undefined = False"
| "required_ok TString (Str s) = (s \<noteq> [])"
| "required_ok t v = True"

definition invalid_paths :: "path list \<Rightarrow> obj \<Rightarrow> string list" where
  "invalid_paths schema d =
     map pname (filter (\<lambda>p. required p \<and> \<not> required_ok (ptype p) (get d (pname p))) schema)"

fun validate_all :: "path list \<Rightarrow> obj list \<Rightarrow> error option" where
  "validate_all schema [] = None"
| "validate_all schema (d # ds) =
     (if invalid_paths schema d = [] then validate_all schema ds
      else Some (ValidationError (invalid_paths schema d)))"

text \<open>
  The server's unique indexes: \<^verbatim>\<open>_id\<close> and every path declared \<^verbatim>\<open>unique: true\<close>.
  An insert whose value at such a key is already in the collection is refused with the
  duplicate-key error, code 11000; a missing value counts as a value. An ordered bulk
  insert stops at the first refused document and keeps the ones before it. Which paths
  the server holds a unique index for at the time of a write is the model's
  \<open>unique\<close> flags as passed to \<open>insertMany\<close>: see \<open>server_model\<close> below for a
  collection whose indexes are gone.
\<close>

definition unique_keys :: "path list \<Rightarrow> string list" where
  "unique_keys schema = ''_id'' # map pname (filter unique schema)"

definition dup_key :: "string list \<Rightarrow> obj list \<Rightarrow> obj \<Rightarrow> bool" where
  "dup_key keys coll d = list_ex (\<lambda>k. list_ex (\<lambda>e. get e k = get d k) coll) keys"

fun mongo_insert :: "string list \<Rightarrow> obj list \<Rightarrow> obj list \<Rightarrow> error option \<times> obj list" where
  "mongo_insert keys coll [] = (None, coll)"
| "mongo_insert keys coll (d # ds) =
     (if dup_key keys coll d then (Some (MongoServerError 11000), coll)
      else mongo_insert keys (coll @ [d]) ds)"

text \<open>
  \<^verbatim>\<open>Model.insertMany(docs)\<close> with the default \<^verbatim>\<open>ordered: true\<close>: every document is
  validated first and nothing is written when one of them is invalid; then the documents
  go to the server in one ordered bulk insert, which creates the collection when it does
  not exist. The result is the error thrown, if any, and the database afterwards.
\<close>

definition docs :: "db \<Rightarrow> cname \<Rightarrow> obj list" where
  "docs d c = (case d c of None \<Rightarrow> [] | Some xs \<Rightarrow> xs)"

definition insertMany :: "model \<Rightarrow> obj list \<Rightarrow> db \<Rightarrow> error option \<times> db" where
  "insertMany m ds d =
     (if ds = [] then (None, d)
      else (case validate_all (fst m) ds of
              Some e \<Rightarrow> (Some e, d)
            | None \<Rightarrow>
                (case mongo_insert (unique_keys (fst m)) (docs d (snd m)) ds of
                   (e, c') \<Rightarrow> (e, d(snd m := Some c')))))"

section \<open>The environment of a run\<close>

text \<open>
  What a run of the script depends on besides the database: whether
  \<^verbatim>\<open>mongoose.connect\<close> throws, whether the server refuses a \<^verbatim>\<open>dropCollection\<close>
  with some error code, the first ObjectId the process hands out, the two bcrypt
  functions, and the timing of mongoose's background initialisation.
  \<open>genSalt env rounds k\<close> is the salt that the \<open>k\<close>-th call of
  \<^verbatim>\<open>bcrypt.genSalt(rounds)\<close> draws.

  \<^verbatim>\<open>mongoose.model(...)\<close> registers the four models; once the connection is open,
  mongoose initialises each of them in the background, alongside the statements of the
  script: it creates the model's collection and builds the indexes that the schema
  declares. The script's \<^verbatim>\<open>dropCollection\<close> destroys a collection together with its
  indexes, and nothing builds them again. \<open>init_kept env c\<close> says that what the
  initialisation created for collection \<open>c\<close> is still there afterwards: it came after the
  script's drop of \<open>c\<close>, or the script never dropped \<open>c\<close>. It is false when the drop
  came last, and when the initialisation creates nothing for \<open>c\<close>. Which of the orders
  happens is not decided by the script.
\<close>

record env =
  connect_error :: "error option"
  drop_fault :: "cname \<Rightarrow> int option"
  first_id :: nat
  genSalt :: "nat \<Rightarrow> nat \<Rightarrow> string"
  bhash :: "string \<Rightarrow> string \<Rightarrow> string"
  init_kept :: "cname \<Rightarrow> bool"

text \<open>
  The model as the server enforces it. While the unique indexes of a collection exist,
  the server refuses duplicates on the paths that the schema declares unique; when they
  are gone, only \<^verbatim>\<open>_id\<close> is unique, as if the schema declared no path unique.
  Validation of required paths is mongoose's own and does not depend on the server.
\<close>

definition unindexed :: "model \<Rightarrow> model" where
  "unindexed m =
     (map (\<lambda>p. Path (pname p) (ptype p) (required p) False (dflt p)) (fst m), snd m)"

definition server_model :: "env \<Rightarrow> model \<Rightarrow> model" where
  "server_model env m = (if init_kept env (snd m) then m else unindexed m)"

text \<open>
  What the background initialisation has added to the database by the end of a run: a
  collection that does not exist and whose initialisation was kept exists, empty. No
  document is added or removed.
\<close>

definition background_init :: "env \<Rightarrow> error option \<times> db \<Rightarrow> error option \<times> db" where
  "background_init env r =
     (fst r, (\<lambda>c. if snd r c = None \<and> init_kept env c then Some [] else snd r c))"

text \<open>
  \<^verbatim>\<open>await mongoose.connect(...)\<close>: throws or opens the connection. The background
  initialisation that an open connection starts is \<open>background_init\<close>, applied in
  \<open>seedDatabase\<close> to what follows the connection.
\<close>

definition connect :: "env \<Rightarrow> db \<Rightarrow> error option \<times> db" where
  "connect env d = (connect_error env, d)"

text \<open>
  \<^verbatim>\<open>db.dropCollection(name)\<close>: refused with the server's code when the server refuses,
  with code 26 (NamespaceNotFound) when the collection does not exist; otherwise the
  collection and all its documents are gone.
\<close>

definition dropCollection :: "env \<Rightarrow> cname \<Rightarrow> db \<Rightarrow> error option \<times> db" where
  "dropCollection env c d =
     (case drop_fault env c of
        Some code \<Rightarrow> (Some (MongoServerError code), d)
      | None \<Rightarrow>
          (case d c of
             None \<Rightarrow> (Some (MongoServerError 26), d)
           | Some xs \<Rightarrow> (None, d(c := None))))"

text \<open>\<^verbatim>\<open>.catch(e => { if (e.code != 26) throw e; })\<close>\<close>

fun error_code :: "error \<Rightarrow> int option" where
  "error_code (MongoServerError code) = Some code"
| "error_code e = None"

definition catch26 :: "error option \<times> db \<Rightarrow> error option \<times> db" where
  "catch26 r =
     (case r of
        (None, d) \<Rightarrow> (None, d)
      | (Some e, d) \<Rightarrow> (if error_code e \<noteq> Some 26 then (Some e, d) else (None, d)))"

text \<open>
  Sequencing inside the \<^verbatim>\<open>try\<close> block: a statement that throws ends the block, and the
  \<^verbatim>\<open>catch\<close> clause logs the error; the database stays as the failed statement left it.
\<close>

definition andthen :: "error option \<times> db \<Rightarrow> (db \<Rightarrow> error option \<times> db) \<Rightarrow> error option \<times> db" where
  "andthen r f = (case r of (None, d) \<Rightarrow> f d | (Some e, d) \<Rightarrow> (Some e, d))"

section \<open>seedDatabase\<close>

definition hashPassword :: "env \<Rightarrow> nat \<Rightarrow> string \<Rightarrow> string" where
  "hashPassword env k password = bhash env password (genSalt env 10 k)"

definition categoriesData :: "obj list" where
  "categoriesData =
    [[(''categoryName'', Str ''Fiction'')],
     [(''categoryName'', Str ''Science Fiction'')],
     [(''categoryName'', Str ''Mystery'')],
     [(''categoryName'', Str ''Thriller'')],
     [(''categoryName'', Str ''Non-Fiction'')],
     [(''categoryName'', Str ''Biography'')],
     [(''categoryName'', Str ''History'')],
     [(''categoryName'', Str ''Technology'')]]"

definition usersData :: "obj list" where
  "usersData =
    [[(''userType'', Str ''Member''), (''userFullName'', Str ''John Doe''),
      (''email'', Str ''john.doe@example.com''), (''password'', Str ''password123''),
      (''mobileNumber'', Str ''1234567890''), (''admissionId'', Str ''JD123'')],
     [(''userType'', Str ''Member''), (''userFullName'', Str ''Jane Smith''),
      (''email'', Str ''jane.smith@example.com''), (''password'', Str ''password456''),
      (''mobileNumber'', Str ''9876543210''), (''admissionId'', Str ''JS456'')],
     [(''userType'', Str ''Admin''), (''userFullName'', Str ''Admin User''),
      (''email'', Str ''admin@example.com''), (''password'', Str ''adminPassword''),
      (''mobileNumber'', Str ''1122334455''), (''isAdmin'', Bool True),
      (''employeeId'', Str ''AD001'')]]"

text \<open>
  The \<^verbatim>\<open>reduce\<close> calls that build \<^verbatim>\<open>categoryMap\<close>, \<^verbatim>\<open>userMap\<close> and
  \<^verbatim>\<open>bookMap\<close>: \<^verbatim>\<open>acc[doc.name] = doc._id\<close> for each document in turn. A property
  key is a string; \<^verbatim>\<open>undefined\<close> as a key reads \<^verbatim>\<open>"undefined"\<close>.
\<close>

fun prop_key :: "val \<Rightarrow> string" where
  "prop_key (Str s) = s"
| "prop_key v = ''undefined''"

fun id_map :: "string \<Rightarrow> obj \<Rightarrow> obj list \<Rightarrow> obj" where
  "id_map name acc [] = acc"
| "id_map name acc (d # ds) = id_map name (assign acc (prop_key (get d name)) (get d ''_id'')) ds"

text \<open>
  The loop over \<^verbatim>\<open>usersData\<close>: each user's password is hashed with a salt drawn for
  it, and the document is built from the user's data with \<^verbatim>\<open>password\<close> replaced by the
  hash. \<^verbatim>\<open>bcrypt.hash\<close> throws when it is not given a string.
\<close>

fun hash_users :: "env \<Rightarrow> nat \<Rightarrow> nat \<Rightarrow> obj list \<Rightarrow> error + obj list" where
  "hash_users env n k [] = Inr []"
| "hash_users env n k (userData # rest) =
     (case get userData ''password'' of
        Str password \<Rightarrow>
          (case hash_users env (Suc n) (Suc k) rest of
             Inl e \<Rightarrow> Inl e
           | Inr newUsers \<Rightarrow>
               Inr (new_doc UserSchema n
                      (assign userData ''password'' (Str (hashPassword env k password))) # newUsers))
      | v \<Rightarrow> Inl BcryptError)"

definition booksData :: "obj \<Rightarrow> obj list" where
  "booksData categoryMap =
    [[(''bookName'', Str ''The Lord of the Rings''), (''author'', Str ''J.R.R. Tolkien''),
      (''bookCountAvailable'', Num 5),
      (''categories'', Arr [get categoryMap ''Fiction''])],
     [(''bookName'', Str ''Dune''), (''author'', Str ''Frank Herbert''),
      (''bookCountAvailable'', Num 3),
      (''categories'', Arr [get categoryMap ''Science Fiction''])],
     [(''bookName'', Str ''The Girl with the Dragon Tattoo''), (''author'', Str ''Stieg Larsson''),
      (''bookCountAvailable'', Num 2),
      (''categories'', Arr [get categoryMap ''Mystery'', get categoryMap ''Thriller''])],
     [(''bookName'', Str ''Sapiens: A Brief History of Humankind''),
      (''author'', Str ''Yuval Noah Harari''),
      (''bookCountAvailable'', Num 4),
      (''categories'', Arr [get categoryMap ''Non-Fiction'', get categoryMap ''History''])],
     [(''bookName'', Str ''Steve Jobs''), (''author'', Str ''Walter Isaacson''),
      (''bookCountAvailable'', Num 1),
      (''categories'', Arr [get categoryMap ''Biography'', get categoryMap ''Technology''])]]"

definition transactionsData :: "obj \<Rightarrow> obj \<Rightarrow> obj list" where
  "transactionsData bookMap userMap =
    [[(''bookId'', get bookMap ''The Lord of the Rings''),
      (''borrowerId'', get userMap ''John Doe''),
      (''bookName'', Str ''The Lord of the Rings''),
      (''borrowerName'', Str ''John Doe''),
      (''transactionType'', Str ''Issue''),
      (''fromDate'', Str ''2024-01-15''),
      (''toDate'', Str ''2024-02-15'')],
     [(''bookId'', get bookMap ''Dune''),
      (''borrowerId'', get userMap ''Jane Smith''),
      (''bookName'', Str ''Dune''),
      (''borrowerName'', Str ''Jane Smith''),
      (''transactionType'', Str ''Reservation''),
      (''fromDate'', Str ''2024-02-20''),
      (''toDate'', Str ''2024-03-20'')],
     [(''bookId'', get bookMap ''Sapiens: A Brief History of Humankind''),
      (''borrowerId'', get userMap ''John Doe''),
      (''bookName'', Str ''Sapiens: A Brief History of Humankind''),
      (''borrowerName'', Str ''John Doe''),
      (''transactionType'', Str ''Issue''),
      (''fromDate'', Str ''2023-11-10''),
      (''toDate'', Str ''2023-12-10''),
      (''returnDate'', Str ''2023-12-05''),
      (''transactionStatus'', Str ''Completed'')]]"

text \<open>
  The statement \<^verbatim>\<open>await BookTransaction.insertMany([...])\<close> on its own: the three
  objects become documents with identifiers from \<open>n\<close> on and are inserted.
\<close>

definition seedTransactions :: "nat \<Rightarrow> obj \<Rightarrow> obj \<Rightarrow> db \<Rightarrow> error option \<times> db" where
  "seedTransactions n bookMap userMap d =
     insertMany BookTransaction (new_docs BookTransactionSchema n (transactionsData bookMap userMap)) d"

text \<open>
  The body of \<^verbatim>\<open>seedDatabase\<close>, statement by statement. The result is the error that
  the \<^verbatim>\<open>catch\<close> clause logs (\<open>None\<close> when the run reaches
  \<^verbatim>\<open>'Database seeding complete.'\<close>) and the database the run leaves behind. Console
  output and closing the connection do not touch the database. The script's arrays
  \<^verbatim>\<open>categories\<close>, \<^verbatim>\<open>users\<close> and \<^verbatim>\<open>books\<close> are \<open>category_docs\<close>,
  \<open>user_docs\<close> and \<open>book_docs\<close> here. The two models with unique paths,
  BookCategory and User, are written through \<open>server_model\<close>: their collections have
  just been dropped, and whether the unique indexes exist at the insert depends on the
  background initialisation; for the documents that the script inserts both cases give
  the same result (lemmas \<open>insert_categories\<close> and \<open>insert_users\<close>). Book and
  BookTransaction declare no unique path.
\<close>

definition seedDatabase :: "env \<Rightarrow> db \<Rightarrow> error option \<times> db" where
  "seedDatabase env d0 =
     andthen (connect env d0) (\<lambda>d. background_init env (
     andthen (catch26 (dropCollection env books d)) (\<lambda>d.
     andthen (catch26 (dropCollection env bookcategories d)) (\<lambda>d.
     andthen (catch26 (dropCollection env booktransactions d)) (\<lambda>d.
     andthen (catch26 (dropCollection env users d)) (\<lambda>d.
       (let n0 = first_id env;
            category_docs = new_docs BookCategorySchema n0 categoriesData
        in
     andthen (insertMany (server_model env BookCategory) category_docs d) (\<lambda>d.
       (let categoryMap = id_map ''categoryName'' [] category_docs;
            n1 = n0 + length category_docs
        in
       (case hash_users env n1 0 usersData of
          Inl e \<Rightarrow> (Some e, d)
        | Inr user_docs \<Rightarrow>
     andthen (insertMany (server_model env User) user_docs d) (\<lambda>d.
       (let userMap = id_map ''userFullName'' [] user_docs;
            n2 = n1 + length user_docs;
            book_docs = new_docs BookSchema n2 (booksData categoryMap)
        in
     andthen (insertMany Book book_docs d) (\<lambda>d.
       (let bookMap = id_map ''bookName'' [] book_docs;
            n3 = n2 + length book_docs
        in
     seedTransactions n3 bookMap userMap d))))))))))))))"

section \<open>What a complete run leaves behind\<close>

text \<open>
  The documents of the four collections after a run in which nothing fails, written out
  for a process whose first ObjectId is \<open>n\<close>. Lemma \<open>seedDatabase_complete\<close> below
  proves that \<open>seedDatabase\<close> produces exactly these.
\<close>

definition seeded_categories :: "nat \<Rightarrow> obj list" where
  "seeded_categories n =
    [[(''_id'', Oid n), (''categoryName'', Str ''Fiction''), (''books'', Arr [])],
     [(''_id'', Oid (n + 1)), (''categoryName'', Str ''Science Fiction''), (''books'', Arr [])],
     [(''_id'', Oid (n + 2)), (''categoryName'', Str ''Mystery''), (''books'', Arr [])],
     [(''_id'', Oid (n + 3)), (''categoryName'', Str ''Thriller''), (''books'', Arr [])],
     [(''_id'', Oid (n + 4)), (''categoryName'', Str ''Non-Fiction''), (''books'', Arr [])],
     [(''_id'', Oid (n + 5)), (''categoryName'', Str ''Biography''), (''books'', Arr [])],
     [(''_id'', Oid (n + 6)), (''categoryName'', Str ''History''), (''books'', Arr [])],
     [(''_id'', Oid (n + 7)), (''categoryName'', Str ''Technology''), (''books'', Arr [])]]"

definition seeded_users :: "env \<Rightarrow> nat \<Rightarrow> obj list" where
  "seeded_users env n =
    [[(''_id'', Oid (n + 8)), (''userType'', Str ''Member''),
      (''userFullName'', Str ''John Doe''), (''admissionId'', Str ''JD123''),
      (''address'', Str ''''), (''mobileNumber'', Str ''1234567890''),
      (''photo'', Str ''''), (''email'', Str ''john.doe@example.com''),
      (''password'', Str (bhash env ''password123'' (genSalt env 10 0))),
      (''points'', Num 0), (''activeTransactions'', Arr []),
      (''prevTransactions'', Arr []), (''isAdmin'', Bool False)],
     [(''_id'', Oid (n + 9)), (''userType'', Str ''Member''),
      (''userFullName'', Str ''Jane Smith''), (''admissionId'', Str ''JS456''),
      (''address'', Str ''''), (''mobileNumber'', Str ''9876543210''),
      (''photo'', Str ''''), (''email'', Str ''jane.smith@example.com''),
      (''password'', Str (bhash env ''password456'' (genSalt env 10 1))),
      (''points'', Num 0), (''activeTransactions'', Arr []),
      (''prevTransactions'', Arr []), (''isAdmin'', Bool False)],
     [(''_id'', Oid (n + 10)), (''userType'', Str ''Admin''),
      (''userFullName'', Str ''Admin User''), (''employeeId'', Str ''AD001''),
      (''address'', Str ''''), (''mobileNumber'', Str ''1122334455''),
      (''photo'', Str ''''), (''email'', Str ''admin@example.com''),
      (''password'', Str (bhash env ''adminPassword'' (genSalt env 10 2))),
      (''points'', Num 0), (''activeTransactions'', Arr []),
      (''prevTransactions'', Arr []), (''isAdmin'', Bool True)]]"

definition seeded_books :: "nat \<Rightarrow> obj list" where
  "seeded_books n =
    [[(''_id'', Oid (n + 11)), (''bookName'', Str ''The Lord of the Rings''),
      (''alternateTitle'', Str ''''), (''author'', Str ''J.R.R. Tolkien''),
      (''language'', Str ''''), (''publisher'', Str ''''),
      (''bookCountAvailable'', Num 5), (''bookStatus'', Str ''Available''),
      (''categories'', Arr [Oid n]), (''transactions'', Arr [])],
     [(''_id'', Oid (n + 12)), (''bookName'', Str ''Dune''),
      (''alternateTitle'', Str ''''), (''author'', Str ''Frank Herbert''),
      (''language'', Str ''''), (''publisher'', Str ''''),
      (''bookCountAvailable'', Num 3), (''bookStatus'', Str ''Available''),
      (''categories'', Arr [Oid (n + 1)]), (''transactions'', Arr [])],
     [(''_id'', Oid (n + 13)), (''bookName'', Str ''The Girl with the Dragon Tattoo''),
      (''alternateTitle'', Str ''''), (''author'', Str ''Stieg Larsson''),
      (''language'', Str ''''), (''publisher'', Str ''''),
      (''bookCountAvailable'', Num 2), (''bookStatus'', Str ''Available''),
      (''categories'', Arr [Oid (n + 2), Oid (n + 3)]), (''transactions'', Arr [])],
     [(''_id'', Oid (n + 14)), (''bookName'', Str ''Sapiens: A Brief History of Humankind''),
      (''alternateTitle'', Str ''''), (''author'', Str ''Yuval Noah Harari''),
      (''language'', Str ''''), (''publisher'', Str ''''),
      (''bookCountAvailable'', Num 4), (''bookStatus'', Str ''Available''),
      (''categories'', Arr [Oid (n + 4), Oid (n + 6)]), (''transactions'', Arr [])],
     [(''_id'', Oid (n + 15)), (''bookName'', Str ''Steve Jobs''),
      (''alternateTitle'', Str ''''), (''author'', Str ''Walter Isaacson''),
      (''language'', Str ''''), (''publisher'', Str ''''),
      (''bookCountAvailable'', Num 1), (''bookStatus'', Str ''Available''),
      (''categories'', Arr [Oid (n + 5), Oid (n + 7)]), (''transactions'', Arr [])]]"

definition seeded_transactions :: "nat \<Rightarrow> obj list" where
  "seeded_transactions n =
    [[(''_id'', Oid (n + 16)), (''bookId'', Oid (n + 11)), (''borrowerId'', Oid (n + 8)),
      (''bookName'', Str ''The Lord of the Rings''), (''borrowerName'', Str ''John Doe''),
      (''transactionType'', Str ''Issue''),
      (''fromDate'', Str ''2024-01-15''), (''toDate'', Str ''2024-02-15''),
      (''transactionStatus'', Str ''Active'')],
     [(''_id'', Oid (n + 17)), (''bookId'', Oid (n + 12)), (''borrowerId'', Oid (n + 9)),
      (''bookName'', Str ''Dune''), (''borrowerName'', Str ''Jane Smith''),
      (''transactionType'', Str ''Reservation''),
      (''fromDate'', Str ''2024-02-20''), (''toDate'', Str ''2024-03-20''),
      (''transactionStatus'', Str ''Active'')],
     [(''_id'', Oid (n + 18)), (''bookId'', Oid (n + 14)), (''borrowerId'', Oid (n + 8)),
      (''bookName'', Str ''Sapiens: A Brief History of Humankind''),
      (''borrowerName'', Str ''John Doe''),
      (''transactionType'', Str ''Issue''),
      (''fromDate'', Str ''2023-11-10''), (''toDate'', Str ''2023-12-10''),
      (''returnDate'', Str ''2023-12-05''),
      (''transactionStatus'', Str ''Completed'')]]"

fun seeded :: "env \<Rightarrow> db" where
  "seeded env books = Some (seeded_books (first_id env))"
| "seeded env bookcategories = Some (seeded_categories (first_id env))"
| "seeded env booktransactions = Some (seeded_transactions (first_id env))"
| "seeded env users = Some (seeded_users env (first_id env))"

text \<open>
  The server answers a drop with code 26 only when the collection is missing; an
  environment is taken to respect that.
\<close>

definition faults_not_26 :: "env \<Rightarrow> bool" where
  "faults_not_26 env =
     (drop_fault env books \<noteq> Some 26 \<and> drop_fault env bookcategories \<noteq> Some 26 \<and>
      drop_fault env booktransactions \<noteq> Some 26 \<and> drop_fault env users \<noteq> Some 26)"

text \<open>A bcrypt hash is a string of 60 characters, whatever the password and the salt.\<close>

definition bcrypt_ok :: "env \<Rightarrow> bool" where
  "bcrypt_ok env = (\<forall>p s. length (bhash env p s) = 60)"

definition no_faults :: "env \<Rightarrow> bool" where
  "no_faults env =
     (drop_fault env books = None \<and> drop_fault env bookcategories = None \<and>
      drop_fault env booktransactions = None \<and> drop_fault env users = None)"

text \<open>
  The status that the specification derives from the count: \<^verbatim>\<open>Available\<close> iff
  \<^verbatim>\<open>availableCopies > 0\<close>, else \<^verbatim>\<open>Unavailable\<close>. The source has no such function;
  this one follows the specification's words and is only compared with what is stored.
\<close>

definition derived_status :: "int \<Rightarrow> string" where
  "derived_status availableCopies = (if availableCopies > 0 then ''Available'' else ''Unavailable'')"

section \<open>Sample environments and databases\<close>

text \<open>
  A run in which nothing fails, on a server without collections: identifiers start at 0,
  the bcrypt functions are stand-ins that return strings of the right length, and the
  background initialisation comes after the drops.
\<close>

definition env0 :: env where
  "env0 = \<lparr>connect_error = None, drop_fault = (\<lambda>c. None), first_id = 0,
            genSalt = (\<lambda>rounds k. replicate rounds (CHR ''s'') @ replicate k (CHR ''k'')),
            bhash = (\<lambda>p s. take 60 (s @ p @ replicate 60 (CHR ''.''))),
            init_kept = (\<lambda>c. True)\<rparr>"

definition db0 :: db where
  "db0 = (\<lambda>c. None)"

text \<open>The same environment with a server that refuses to drop \<^verbatim>\<open>users\<close> (code 13).\<close>

definition env_refused :: env where
  "env_refused = env0\<lparr>drop_fault := (\<lambda>c. if c = users then Some 13 else None)\<rparr>"

text \<open>The same environment with a server that cannot be reached.\<close>

definition env_offline :: env where
  "env_offline = env0\<lparr>connect_error := Some ConnectError\<rparr>"


text \<open>A database that holds one book already.\<close>

definition old_book :: obj where
  "old_book = [(''_id'', Oid 900), (''bookName'', Str ''Old''), (''author'', Str ''Nobody''),
               (''bookCountAvailable'', Num 7)]"

definition db_old :: db where
  "db_old = (\<lambda>c. None)(books := Some [old_book])"

text \<open>
  A database with one book that has no copy left and one member, and an Issue transaction
  for that book and that member.
\<close>

definition zero_book :: obj where
  "zero_book = new_doc BookSchema 0
     [(''bookName'', Str ''Dune''), (''author'', Str ''Frank Herbert''), (''bookCountAvailable'', Num 0)]"

definition a_member :: obj where
  "a_member = new_doc UserSchema 1
     [(''userType'', Str ''Member''), (''userFullName'', Str ''Jane Smith''),
      (''email'', Str ''jane.smith@example.com''), (''password'', Str ''x''),
      (''mobileNumber'', Str ''9876543210'')]"

definition db_zero :: db where
  "db_zero = (\<lambda>c. None)(books := Some [zero_book], users := Some [a_member])"

definition an_issue :: obj where
  "an_issue = new_doc BookTransactionSchema 2
     [(''bookId'', Oid 0), (''borrowerId'', Oid 1), (''bookName'', Str ''Dune''),
      (''borrowerName'', Str ''Jane Smith''), (''transactionType'', Str ''Issue''),
      (''fromDate'', Str ''2024-01-15''), (''toDate'', Str ''2024-02-15'')]"

text \<open>
  Two transaction documents for the first seeded book and the first seeded user of
  \<open>env0\<close> (identifiers 11 and 8): one Completed without a return date, one that names
  another book and another borrower.
\<close>

definition unreturned :: obj where
  "unreturned = new_doc BookTransactionSchema 100
     [(''bookId'', Oid 11), (''borrowerId'', Oid 8),
      (''bookName'', Str ''The Lord of the Rings''), (''borrowerName'', Str ''John Doe''),
      (''transactionType'', Str ''Issue''),
      (''fromDate'', Str ''2024-03-01''), (''toDate'', Str ''2024-04-01''),
      (''transactionStatus'', Str ''Completed'')]"

definition misnamed :: obj where
  "misnamed = new_doc BookTransactionSchema 101
     [(''bookId'', Oid 11), (''borrowerId'', Oid 8),
      (''bookName'', Str ''Dune''), (''borrowerName'', Str ''Jane Smith''),
      (''transactionType'', Str ''Issue''),
      (''fromDate'', Str ''2024-03-01''), (''toDate'', Str ''2024-04-01'')]"


section \<open>The issue operation of the specification\<close>

text \<open>
  The script has no operation that issues a book: no ledger, no stock check and no
  \<^verbatim>\<open>OutOfStock\<close> error. The definitions of this section are not translated from the
  source. They follow the specification, over the documents of the source's schemas.
\<close>

text \<open>
  Modelled from the spec: the error taxonomy of section 7 (the source has no engine
  errors).
\<close>

datatype engine_error =
    NotFound | Conflict | OutOfStock | OverlapViolation | InvalidTransition
  | InvariantViolation | Busy






section \<open>Evaluating the script\<close>

subsection \<open>Documents and identifier maps\<close>

text \<open>
  The script's literals become the documents of \<open>seeded\<close>, and the three
  \<^verbatim>\<open>reduce\<close> calls give the maps from names to identifiers.
\<close>

lemma new_categories: "new_docs BookCategorySchema n categoriesData = seeded_categories n"
  by (simp add: categoriesData_def BookCategorySchema_def seeded_categories_def new_doc_def path_value_def)

lemma categoryMap_eq: "id_map ''categoryName'' [] (seeded_categories n) =
   [(''Fiction'', Oid n), (''Science Fiction'', Oid (n + 1)), (''Mystery'', Oid (n + 2)),
    (''Thriller'', Oid (n + 3)), (''Non-Fiction'', Oid (n + 4)), (''Biography'', Oid (n + 5)),
    (''History'', Oid (n + 6)), (''Technology'', Oid (n + 7))]"
  by (simp add: seeded_categories_def)

lemma new_users: "hash_users env (n + 8) 0 usersData = Inr (seeded_users env n)"
  by (simp add: usersData_def UserSchema_def seeded_users_def new_doc_def path_value_def hashPassword_def numeral_2_eq_2)

lemma userMap_eq: "id_map ''userFullName'' [] (seeded_users env n) =
   [(''John Doe'', Oid (n + 8)), (''Jane Smith'', Oid (n + 9)), (''Admin User'', Oid (n + 10))]"
  by (simp add: seeded_users_def)

lemma new_books: "new_docs BookSchema (n + 11) (booksData (id_map ''categoryName'' [] (seeded_categories n))) = seeded_books n"
  by (simp add: categoryMap_eq booksData_def BookSchema_def seeded_books_def new_doc_def path_value_def)

lemma bookMap_eq: "id_map ''bookName'' [] (seeded_books n) =
   [(''The Lord of the Rings'', Oid (n + 11)), (''Dune'', Oid (n + 12)),
    (''The Girl with the Dragon Tattoo'', Oid (n + 13)),
    (''Sapiens: A Brief History of Humankind'', Oid (n + 14)), (''Steve Jobs'', Oid (n + 15))]"
  by (simp add: seeded_books_def)

lemma new_transactions: "new_docs BookTransactionSchema (n + 16)
    (transactionsData (id_map ''bookName'' [] (seeded_books n)) (id_map ''userFullName'' [] (seeded_users env n))) = seeded_transactions n"
  by (simp add: bookMap_eq userMap_eq transactionsData_def BookTransactionSchema_def seeded_transactions_def new_doc_def path_value_def)

lemma length_seeded: "length (seeded_categories n) = 8" "length (seeded_users env n) = 3" "length (seeded_books n) = 5"
  by (simp_all add: seeded_categories_def seeded_users_def seeded_books_def)

subsection \<open>The four inserts\<close>

text \<open>
  Each \<^verbatim>\<open>insertMany\<close> of the script succeeds on a collection that
  has just been dropped, with or without the unique indexes, and an
  \<^verbatim>\<open>insertMany\<close> writes to its own collection only.
\<close>

lemma bcrypt_nonempty: "bcrypt_ok env \<Longrightarrow> bhash env p s \<noteq> []"
proof
  assume a: "bcrypt_ok env" and b: "bhash env p s = []"
  from a have "length (bhash env p s) = 60" by (simp add: bcrypt_ok_def)
  with b show False by simp
qed

lemma insert_categories_indexed: "d bookcategories = None \<Longrightarrow>
   insertMany BookCategory (seeded_categories n) d =
     (None, d(bookcategories := Some (seeded_categories n)))"
  by (simp add: insertMany_def BookCategory_def docs_def
       BookCategorySchema_def seeded_categories_def invalid_paths_def unique_keys_def dup_key_def)

lemma insert_categories_unindexed: "d bookcategories = None \<Longrightarrow>
   insertMany (unindexed BookCategory) (seeded_categories n) d =
     (None, d(bookcategories := Some (seeded_categories n)))"
  by (simp add: unindexed_def insertMany_def BookCategory_def docs_def
       BookCategorySchema_def seeded_categories_def invalid_paths_def unique_keys_def dup_key_def)

lemma insert_categories: "d bookcategories = None \<Longrightarrow>
   insertMany (server_model env BookCategory) (seeded_categories n) d =
     (None, d(bookcategories := Some (seeded_categories n)))"
  by (simp add: server_model_def insert_categories_indexed insert_categories_unindexed)

lemma insert_users_indexed: "bcrypt_ok env \<Longrightarrow> d users = None \<Longrightarrow>
   insertMany User (seeded_users env n) d = (None, d(users := Some (seeded_users env n)))"
  by (simp add: insertMany_def User_def docs_def UserSchema_def
       seeded_users_def invalid_paths_def unique_keys_def dup_key_def bcrypt_nonempty)

lemma insert_users_unindexed: "bcrypt_ok env \<Longrightarrow> d users = None \<Longrightarrow>
   insertMany (unindexed User) (seeded_users env n) d =
     (None, d(users := Some (seeded_users env n)))"
  by (simp add: unindexed_def insertMany_def User_def docs_def UserSchema_def
       seeded_users_def invalid_paths_def unique_keys_def dup_key_def bcrypt_nonempty)

lemma insert_users: "bcrypt_ok env \<Longrightarrow> d users = None \<Longrightarrow>
   insertMany (server_model env User) (seeded_users env n) d =
     (None, d(users := Some (seeded_users env n)))"
  by (simp add: server_model_def insert_users_indexed insert_users_unindexed)

lemma insert_books: "d books = None \<Longrightarrow>
   insertMany Book (seeded_books n) d = (None, d(books := Some (seeded_books n)))"
  by (simp add: insertMany_def Book_def docs_def BookSchema_def seeded_books_def
       invalid_paths_def unique_keys_def dup_key_def)

lemma insert_transactions: "d booktransactions = None \<Longrightarrow>
   insertMany BookTransaction (seeded_transactions n) d = (None, d(booktransactions := Some (seeded_transactions n)))"
  by (simp add: insertMany_def BookTransaction_def docs_def BookTransactionSchema_def seeded_transactions_def
       invalid_paths_def unique_keys_def dup_key_def)

lemma insertMany_frame: "c \<noteq> snd m \<Longrightarrow> snd (insertMany m ts d) c = d c"
  by (simp add: insertMany_def split: option.splits prod.splits)

subsection \<open>The drops and the background initialisation\<close>

lemma drop_ok: "drop_fault env c = None \<Longrightarrow> catch26 (dropCollection env c d) = (None, d(c := None))"
  by (auto simp: catch26_def dropCollection_def split: option.splits)

lemma drop_refused: "drop_fault env c = Some k \<Longrightarrow> k \<noteq> 26 \<Longrightarrow>
   catch26 (dropCollection env c d) = (Some (MongoServerError k), d)"
  by (simp add: catch26_def dropCollection_def)

lemma catch26_code:
  "catch26 (Some (MongoServerError k), d) = (if k = 26 then (None, d) else (Some (MongoServerError k), d))"
  by (simp add: catch26_def)

lemma background_init_docs: "docs (snd (background_init env r)) c = docs (snd r) c"
  by (simp add: background_init_def docs_def)

lemma background_init_fst: "fst (background_init env r) = fst r"
  by (simp add: background_init_def)

subsection \<open>Whole runs\<close>

text \<open>
  A run either completes and leaves \<open>seeded env\<close>, or ends at the connection
  or at a refused drop, before any insert.
\<close>

lemma seeded_eq: "d(bookcategories := Some (seeded_categories (first_id env)),
    users := Some (seeded_users env (first_id env)), books := Some (seeded_books (first_id env)),
    booktransactions := Some (seeded_transactions (first_id env))) = seeded env"
proof
  fix c show "(d(bookcategories := Some (seeded_categories (first_id env)),
    users := Some (seeded_users env (first_id env)), books := Some (seeded_books (first_id env)),
    booktransactions := Some (seeded_transactions (first_id env)))) c = seeded env c"
    by (cases c) simp_all
qed

lemma docs_seeded:
  "docs (seeded env) books = seeded_books (first_id env)"
  "docs (seeded env) users = seeded_users env (first_id env)"
  "docs (seeded env) booktransactions = seeded_transactions (first_id env)"
  "docs (seeded env) bookcategories = seeded_categories (first_id env)"
  by (simp_all add: docs_def)

lemma background_init_seeded: "background_init env (None, seeded env) = (None, seeded env)"
proof -
  have "(\<lambda>c. if snd (None, seeded env) c = None \<and> init_kept env c then Some []
             else snd (None, seeded env) c) = seeded env"
  proof
    fix c
    show "(if snd (None, seeded env) c = None \<and> init_kept env c then Some []
           else snd (None, seeded env) c) = seeded env c"
      by (cases c) simp_all
  qed
  then have "(None, (\<lambda>c. if snd (None, seeded env) c = None \<and> init_kept env c then Some []
             else snd (None, seeded env) c)) = (None, seeded env)"
    by (rule arg_cong)
  then show ?thesis by (simp only: background_init_def fst_conv)
qed

lemma seedDatabase_complete:
  assumes "connect_error env = None" "no_faults env" "bcrypt_ok env"
  shows "seedDatabase env d = (None, seeded env)"
proof -
  have f: "drop_fault env books = None" "drop_fault env bookcategories = None"
    "drop_fault env booktransactions = None" "drop_fault env users = None"
    using assms(2) by (simp_all add: no_faults_def)
  show ?thesis
    unfolding seedDatabase_def
    by (simp add: andthen_def connect_def assms(1) drop_ok f Let_def
        new_categories insert_categories length_seeded new_users insert_users [OF assms(3)]
        add.assoc new_books insert_books seedTransactions_def new_transactions insert_transactions
        seeded_eq background_init_seeded)
qed

lemma seedDatabase_offline: "connect_error env = Some e \<Longrightarrow> seedDatabase env d = (Some e, d)"
  by (simp add: seedDatabase_def andthen_def connect_def)

lemma refused_books:
  "connect_error env = None \<Longrightarrow> drop_fault env books = Some k \<Longrightarrow> k \<noteq> 26 \<Longrightarrow>
   seedDatabase env d = background_init env (Some (MongoServerError k), d)"
  by (simp add: seedDatabase_def andthen_def connect_def drop_refused)

lemma refused_bookcategories:
  "connect_error env = None \<Longrightarrow> drop_fault env books = None \<Longrightarrow>
   drop_fault env bookcategories = Some k \<Longrightarrow> k \<noteq> 26 \<Longrightarrow>
   seedDatabase env d = background_init env (Some (MongoServerError k), d(books := None))"
  by (simp add: seedDatabase_def andthen_def connect_def drop_refused drop_ok)

lemma refused_booktransactions:
  "connect_error env = None \<Longrightarrow> drop_fault env books = None \<Longrightarrow>
   drop_fault env bookcategories = None \<Longrightarrow>
   drop_fault env booktransactions = Some k \<Longrightarrow> k \<noteq> 26 \<Longrightarrow>
   seedDatabase env d =
     background_init env (Some (MongoServerError k), d(books := None, bookcategories := None))"
  by (simp add: seedDatabase_def andthen_def connect_def drop_refused drop_ok)

lemma refused_users:
  "connect_error env = None \<Longrightarrow> drop_fault env books = None \<Longrightarrow>
   drop_fault env bookcategories = None \<Longrightarrow> drop_fault env booktransactions = None \<Longrightarrow>
   drop_fault env users = Some k \<Longrightarrow> k \<noteq> 26 \<Longrightarrow>
   seedDatabase env d =
     background_init env
       (Some (MongoServerError k),
        d(books := None, bookcategories := None, booktransactions := None))"
  by (simp add: seedDatabase_def andthen_def connect_def drop_refused drop_ok)

lemma seedDatabase_refused:
  assumes "faults_not_26 env" "connect_error env = None" "\<not> no_faults env"
  shows "(\<exists>c k. drop_fault env c = Some k \<and> k \<noteq> 26 \<and>
            fst (seedDatabase env d) = Some (MongoServerError k)) \<and>
         (\<forall>c. docs (snd (seedDatabase env d)) c = [] \<or>
              docs (snd (seedDatabase env d)) c = docs d c)"
proof (cases "drop_fault env books")
  case (Some k)
  with assms(1) have k: "k \<noteq> 26" by (auto simp: faults_not_26_def)
  show ?thesis
    unfolding refused_books [OF assms(2) Some k] background_init_docs background_init_fst
    using Some k by (auto simp: docs_def)
next
  case b: None
  show ?thesis
  proof (cases "drop_fault env bookcategories")
    case (Some k)
    with assms(1) have k: "k \<noteq> 26" by (auto simp: faults_not_26_def)
    show ?thesis
      unfolding refused_bookcategories [OF assms(2) b Some k] background_init_docs background_init_fst
      using Some k by (auto simp: docs_def)
  next
    case c: None
    show ?thesis
    proof (cases "drop_fault env booktransactions")
      case (Some k)
      with assms(1) have k: "k \<noteq> 26" by (auto simp: faults_not_26_def)
      show ?thesis
        unfolding refused_booktransactions [OF assms(2) b c Some k]
          background_init_docs background_init_fst
        using Some k by (auto simp: docs_def)
    next
      case t: None
      show ?thesis
      proof (cases "drop_fault env users")
        case (Some k)
        with assms(1) have k: "k \<noteq> 26" by (auto simp: faults_not_26_def)
        show ?thesis
          unfolding refused_users [OF assms(2) b c t Some k]
            background_init_docs background_init_fst
          using Some k by (auto simp: docs_def)
      next
        case None
        with b c t assms(3) show ?thesis by (simp add: no_faults_def)
      qed
    qed
  qed
qed

lemma run_shapes:
  assumes "faults_not_26 env" "bcrypt_ok env"
  shows "seedDatabase env d = (None, seeded env) \<or>
         (fst (seedDatabase env d) \<noteq> None \<and>
          (\<forall>c. docs (snd (seedDatabase env d)) c = [] \<or>
               docs (snd (seedDatabase env d)) c = docs d c))"
proof (cases "connect_error env")
  case (Some e)
  then show ?thesis by (simp add: seedDatabase_offline)
next
  case None
  show ?thesis
  proof (cases "no_faults env")
    case True
    with None show ?thesis using seedDatabase_complete [OF _ _ assms(2)] by simp
  next
    case False
    from seedDatabase_refused [OF assms(1) None False, of d] show ?thesis by auto
  qed
qed

lemma created_in_seeded:
  assumes "faults_not_26 env" "bcrypt_ok env"
    and "x \<in> set (docs (snd (seedDatabase env d)) c)" "x \<notin> set (docs d c)"
  shows "x \<in> set (docs (seeded env) c) \<and> seedDatabase env d = (None, seeded env)"
proof -
  have "\<not> (\<forall>c. docs (snd (seedDatabase env d)) c = [] \<or>
               docs (snd (seedDatabase env d)) c = docs d c)"
  proof
    assume "\<forall>c. docs (snd (seedDatabase env d)) c = [] \<or>
                docs (snd (seedDatabase env d)) c = docs d c"
    then have "docs (snd (seedDatabase env d)) c = [] \<or>
               docs (snd (seedDatabase env d)) c = docs d c" ..
    with assms(3,4) show False by auto
  qed
  with run_shapes [OF assms(1,2), of d] have r: "seedDatabase env d = (None, seeded env)"
    by blast
  with assms(3) show ?thesis by simp
qed

subsection \<open>Reading a new document\<close>

lemma get_new_paths_other: "k \<notin> set (map pname ps) \<Longrightarrow> get (new_paths ps ob) k = Undefined"
  by (induction ps) auto

lemma get_new_paths:
  "distinct (map pname ps) \<Longrightarrow> p \<in> set ps \<Longrightarrow> get (new_paths ps ob) (pname p) = path_value p ob"
proof (induction ps)
  case Nil
  then show ?case by simp
next
  case (Cons q ps)
  show ?case
  proof (cases "p = q")
    case True
    with Cons.prems show ?thesis by (simp add: get_new_paths_other)
  next
    case False
    with Cons.prems have "p \<in> set ps" "pname q \<noteq> pname p" by auto
    with Cons show ?thesis by simp
  qed
qed

lemma get_new_doc:
  "distinct (map pname ps) \<Longrightarrow> p \<in> set ps \<Longrightarrow> pname p \<noteq> ''_id'' \<Longrightarrow>
   get (new_doc ps n ob) (pname p) = path_value p ob"
  by (simp add: new_doc_def get_new_paths)

subsection \<open>Duplicate keys\<close>













subsection \<open>Facts about the seeded documents\<close>

lemma seeded_snapshots:
  "\<forall>t \<in> set (seeded_transactions n).
     (\<exists>b \<in> set (seeded_books n).
        get b ''_id'' = get t ''bookId'' \<and> get b ''bookName'' = get t ''bookName'') \<and>
     (\<forall>b \<in> set (seeded_books n).
        get b ''_id'' = get t ''bookId'' \<longrightarrow> get b ''bookName'' = get t ''bookName'') \<and>
     (\<exists>u \<in> set (seeded_users env n).
        get u ''_id'' = get t ''borrowerId'' \<and> get u ''userFullName'' = get t ''borrowerName'') \<and>
     (\<forall>u \<in> set (seeded_users env n).
        get u ''_id'' = get t ''borrowerId'' \<longrightarrow> get u ''userFullName'' = get t ''borrowerName'')"
  by (simp add: seeded_transactions_def seeded_books_def seeded_users_def)


lemma bcrypt_not_plain:
  "bcrypt_ok env \<Longrightarrow> length pw \<noteq> 60 \<Longrightarrow> bhash env p s \<noteq> pw"
  by (auto simp: bcrypt_ok_def)

lemma seeded_passwords:
  assumes "bcrypt_ok env"
  shows "\<forall>u \<in> set (seeded_users env n).
     (\<exists>k pw. k < length usersData \<and>
        get (usersData ! k) ''password'' = Str pw \<and>
        get (usersData ! k) ''userFullName'' = get u ''userFullName'' \<and>
        get u ''password'' = Str (bhash env pw (genSalt env 10 k)) \<and>
        get u ''password'' \<noteq> Str pw \<and>
        Str pw \<notin> snd ` set u)"
proof -
  have h0: "bhash env ''password123'' s \<noteq> ''password123''" for s
    by (rule bcrypt_not_plain [OF assms]) simp
  then have g0: "''password123'' \<noteq> bhash env ''password123'' s" for s
    by (rule not_sym)
  have u0: "\<exists>k pw. k < length usersData \<and>
        get (usersData ! k) ''password'' = Str pw \<and>
        get (usersData ! k) ''userFullName'' = get (seeded_users env n ! 0) ''userFullName'' \<and>
        get (seeded_users env n ! 0) ''password'' = Str (bhash env pw (genSalt env 10 k)) \<and>
        get (seeded_users env n ! 0) ''password'' \<noteq> Str pw \<and>
        Str pw \<notin> snd ` set (seeded_users env n ! 0)"
    by (rule exI [of _ 0], rule exI [of _ "''password123''"])
       (simp add: usersData_def seeded_users_def h0 g0)
  have h1: "bhash env ''password456'' s \<noteq> ''password456''" for s
    by (rule bcrypt_not_plain [OF assms]) simp
  then have g1: "''password456'' \<noteq> bhash env ''password456'' s" for s
    by (rule not_sym)
  have u1: "\<exists>k pw. k < length usersData \<and>
        get (usersData ! k) ''password'' = Str pw \<and>
        get (usersData ! k) ''userFullName'' = get (seeded_users env n ! 1) ''userFullName'' \<and>
        get (seeded_users env n ! 1) ''password'' = Str (bhash env pw (genSalt env 10 k)) \<and>
        get (seeded_users env n ! 1) ''password'' \<noteq> Str pw \<and>
        Str pw \<notin> snd ` set (seeded_users env n ! 1)"
    by (rule exI [of _ 1], rule exI [of _ "''password456''"])
       (simp add: usersData_def seeded_users_def h1 g1)
  have h2: "bhash env ''adminPassword'' s \<noteq> ''adminPassword''" for s
    by (rule bcrypt_not_plain [OF assms]) simp
  then have g2: "''adminPassword'' \<noteq> bhash env ''adminPassword'' s" for s
    by (rule not_sym)
  have u2: "\<exists>k pw. k < length usersData \<and>
        get (usersData ! k) ''password'' = Str pw \<and>
        get (usersData ! k) ''userFullName'' = get (seeded_users env n ! 2) ''userFullName'' \<and>
        get (seeded_users env n ! 2) ''password'' = Str (bhash env pw (genSalt env 10 k)) \<and>
        get (seeded_users env n ! 2) ''password'' \<noteq> Str pw \<and>
        Str pw \<notin> snd ` set (seeded_users env n ! 2)"
    by (rule exI [of _ 2], rule exI [of _ "''adminPassword''"])
       (simp add: usersData_def seeded_users_def h2 g2)
  have l: "seeded_users env n = [seeded_users env n ! 0, seeded_users env n ! 1, seeded_users env n ! 2]"
    by (simp add: seeded_users_def)
  show ?thesis
  proof
    fix u assume "u \<in> set (seeded_users env n)"
    then have "u \<in> set [seeded_users env n ! 0, seeded_users env n ! 1, seeded_users env n ! 2]"
      by (subst (asm) l)
    then have "u = seeded_users env n ! 0 \<or> u = seeded_users env n ! 1 \<or> u = seeded_users env n ! 2"
      by (simp only: list.set insert_iff empty_iff simp_thms)
    with u0 u1 u2 show "\<exists>k pw. k < length usersData \<and>
        get (usersData ! k) ''password'' = Str pw \<and>
        get (usersData ! k) ''userFullName'' = get u ''userFullName'' \<and>
        get u ''password'' = Str (bhash env pw (genSalt env 10 k)) \<and>
        get u ''password'' \<noteq> Str pw \<and>
        Str pw \<notin> snd ` set u"
      by (elim disjE) (simp_all only:)
  qed
qed

subsection \<open>The sample environments\<close>

lemma env0_ok: "connect_error env0 = None" "no_faults env0" "faults_not_26 env0" "bcrypt_ok env0"
  by (simp_all add: env0_def no_faults_def faults_not_26_def bcrypt_ok_def min_def)

lemma run0: "seedDatabase env0 d = (None, seeded env0)"
  by (rule seedDatabase_complete) (rule env0_ok)+

lemma first_id0: "first_id env0 = 0"
  by (simp add: env0_def)

lemma env_refused_ok:
  "connect_error env_refused = None" "faults_not_26 env_refused" "bcrypt_ok env_refused"
  "\<not> no_faults env_refused" "drop_fault env_refused users = Some 13"
  "drop_fault env_refused books = None" "drop_fault env_refused bookcategories = None"
  "drop_fault env_refused booktransactions = None"
  by (simp_all add: env_refused_def env0_def no_faults_def faults_not_26_def bcrypt_ok_def min_def)

lemma env_offline_ok: "connect_error env_offline = Some ConnectError"
  by (simp add: env_offline_def)





section \<open>Properties of the seeding run\<close>

subsection \<open>C1: book counts\<close>

text \<open>
  C1. The claim reads: for every book, after every operation sequence (including the
  seeding run), \<open>0 \<le> availableCopies \<le> totalCopies\<close>, and the Book record carries a
  \<^verbatim>\<open>totalCopies\<close> bound. The Book schema has no \<^verbatim>\<open>totalCopies\<close> path, so no upper
  bound is stored. What holds: every book document that a run of \<open>seedDatabase\<close> creates
  has a \<^verbatim>\<open>bookCountAvailable\<close> between 1 and 5, hence not below 0, and no
  \<^verbatim>\<open>totalCopies\<close> value.
\<close>

theorem C1_seeded_book_counts:
  assumes "faults_not_26 env" "bcrypt_ok env"
    and "b \<in> set (docs (snd (seedDatabase env d)) books)" "b \<notin> set (docs d books)"
  shows "(\<exists>k. get b ''bookCountAvailable'' = Num k \<and> 1 \<le> k \<and> k \<le> 5) \<and>
         get b ''totalCopies'' = Undefined \<and> ''totalCopies'' \<notin> set (map pname BookSchema)"
proof -
  have all: "\<forall>b \<in> set (seeded_books (first_id env)).
      (\<exists>k. get b ''bookCountAvailable'' = Num k \<and> 1 \<le> k \<and> k \<le> 5) \<and>
      get b ''totalCopies'' = Undefined \<and> ''totalCopies'' \<notin> set (map pname BookSchema)"
    by (simp add: seeded_books_def BookSchema_def)
  have "b \<in> set (seeded_books (first_id env))"
    using created_in_seeded [OF assms] by (simp add: docs_def)
  with all show ?thesis by (rule bspec)
qed

text \<open>The first seeded book, in a run of the sample environment on an empty server.\<close>

theorem C1_witness:
  "faults_not_26 env0 \<and> bcrypt_ok env0 \<and>
   hd (seeded_books 0) \<in> set (docs (snd (seedDatabase env0 db0)) books) \<and>
   hd (seeded_books 0) \<notin> set (docs db0 books) \<and>
   get (hd (seeded_books 0)) ''bookCountAvailable'' = Num 5 \<and>
   get (hd (seeded_books 0)) ''totalCopies'' = Undefined"
  using C1_seeded_book_counts [of env0 "hd (seeded_books 0)" db0]
  by (simp add: env0_ok run0 first_id0 docs_def db0_def seeded_books_def)

text \<open>
  No path of the Book schema is called \<^verbatim>\<open>totalCopies\<close>, and a \<^verbatim>\<open>totalCopies\<close> value
  handed to \<^verbatim>\<open>new Book\<close> is not kept in the document.
\<close>

theorem C1_counterexample:
  "''totalCopies'' \<notin> set (map pname BookSchema) \<and>
   get (new_doc BookSchema 0
          [(''bookName'', Str ''Dune''), (''author'', Str ''Frank Herbert''),
           (''bookCountAvailable'', Num 3), (''totalCopies'', Num 3)]) ''totalCopies'' = Undefined"
  by (simp add: BookSchema_def new_doc_def path_value_def)

subsection \<open>C2: returnDate and the Completed status\<close>

text \<open>
  C2. The claim reads: for every BookTransaction record, \<^verbatim>\<open>returnDate\<close> is set if
  and only if the status is \<^verbatim>\<open>Completed\<close>. The schema links the two fields by
  nothing: \<^verbatim>\<open>returnDate\<close> is an optional String and \<^verbatim>\<open>transactionStatus\<close> a
  String with default \<^verbatim>\<open>"Active"\<close>. What holds: for every BookTransaction record
  that a run of \<open>seedDatabase\<close> creates, \<^verbatim>\<open>returnDate\<close> is set if and only if
  \<^verbatim>\<open>transactionStatus\<close> is \<^verbatim>\<open>Completed\<close>; hence a run does not break the
  property: when it holds of every record stored before a run, it holds of every record
  stored after it.
\<close>

theorem C2_returnDate_iff_completed:
  assumes "faults_not_26 env" "bcrypt_ok env"
  shows "(t \<in> set (docs (snd (seedDatabase env d)) booktransactions) \<and>
          t \<notin> set (docs d booktransactions) \<longrightarrow>
            (get t ''returnDate'' \<noteq> Undefined) = (get t ''transactionStatus'' = Str ''Completed'')) \<and>
         ((\<forall>x \<in> set (docs d booktransactions).
             (get x ''returnDate'' \<noteq> Undefined) = (get x ''transactionStatus'' = Str ''Completed'')) \<longrightarrow>
          (\<forall>x \<in> set (docs (snd (seedDatabase env d)) booktransactions).
             (get x ''returnDate'' \<noteq> Undefined) = (get x ''transactionStatus'' = Str ''Completed'')))"
proof -
  have all: "\<forall>t \<in> set (seeded_transactions (first_id env)).
      (get t ''returnDate'' \<noteq> Undefined) = (get t ''transactionStatus'' = Str ''Completed'')"
    by (simp add: seeded_transactions_def)
  have created: "(get x ''returnDate'' \<noteq> Undefined) = (get x ''transactionStatus'' = Str ''Completed'')"
    if "x \<in> set (docs (snd (seedDatabase env d)) booktransactions)"
       "x \<notin> set (docs d booktransactions)" for x
  proof -
    have "x \<in> set (seeded_transactions (first_id env))"
      using created_in_seeded [OF assms that] by (simp add: docs_def)
    with all show ?thesis by (rule bspec)
  qed
  show ?thesis
  proof (intro conjI impI ballI)
    assume "t \<in> set (docs (snd (seedDatabase env d)) booktransactions) \<and>
            t \<notin> set (docs d booktransactions)"
    then show "(get t ''returnDate'' \<noteq> Undefined) = (get t ''transactionStatus'' = Str ''Completed'')"
      using created by blast
  next
    fix x
    assume old: "\<forall>x \<in> set (docs d booktransactions).
             (get x ''returnDate'' \<noteq> Undefined) = (get x ''transactionStatus'' = Str ''Completed'')"
      and x: "x \<in> set (docs (snd (seedDatabase env d)) booktransactions)"
    show "(get x ''returnDate'' \<noteq> Undefined) = (get x ''transactionStatus'' = Str ''Completed'')"
    proof (cases "x \<in> set (docs d booktransactions)")
      case True
      with old show ?thesis by (rule bspec)
    next
      case False
      with x show ?thesis by (rule created)
    qed
  qed
qed

text \<open>The third seeded transaction carries a return date and is Completed.\<close>

theorem C2_witness:
  "faults_not_26 env0 \<and> bcrypt_ok env0 \<and>
   seeded_transactions 0 ! 2 \<in> set (docs (snd (seedDatabase env0 db0)) booktransactions) \<and>
   seeded_transactions 0 ! 2 \<notin> set (docs db0 booktransactions) \<and>
   get (seeded_transactions 0 ! 2) ''returnDate'' = Str ''2023-12-05'' \<and>
   get (seeded_transactions 0 ! 2) ''transactionStatus'' = Str ''Completed''"
proof -
  have h: "seeded_transactions 0 ! 2 \<in> set (docs (snd (seedDatabase env0 db0)) booktransactions)"
          "seeded_transactions 0 ! 2 \<notin> set (docs db0 booktransactions)"
          "get (seeded_transactions 0 ! 2) ''returnDate'' = Str ''2023-12-05''"
    by (simp_all add: run0 first_id0 docs_def db0_def seeded_transactions_def)
  from C2_returnDate_iff_completed [OF env0_ok(3) env0_ok(4), of "seeded_transactions 0 ! 2" db0] h
  have "get (seeded_transactions 0 ! 2) ''transactionStatus'' = Str ''Completed''"
    by simp
  with env0_ok h show ?thesis by simp
qed

text \<open>
  A record with status \<^verbatim>\<open>Completed\<close> and no \<^verbatim>\<open>returnDate\<close> is accepted by
  \<^verbatim>\<open>BookTransaction.insertMany\<close> on the seeded database, and a run that cannot
  connect leaves it stored.
\<close>

theorem C2_counterexample:
  "get unreturned ''transactionStatus'' = Str ''Completed'' \<and>
   get unreturned ''returnDate'' = Undefined \<and>
   insertMany BookTransaction [unreturned] (seeded env0) =
     (None, (seeded env0)(booktransactions := Some (seeded_transactions 0 @ [unreturned]))) \<and>
   seedDatabase env_offline ((seeded env0)(booktransactions := Some (seeded_transactions 0 @ [unreturned]))) =
     (Some ConnectError, (seeded env0)(booktransactions := Some (seeded_transactions 0 @ [unreturned])))"
proof -
  have a: "get unreturned ''transactionStatus'' = Str ''Completed''"
          "get unreturned ''returnDate'' = Undefined"
    by (simp_all add: unreturned_def BookTransactionSchema_def new_doc_def path_value_def)
  have b: "insertMany BookTransaction [unreturned] (seeded env0) =
     (None, (seeded env0)(booktransactions := Some (seeded_transactions 0 @ [unreturned])))"
    by (simp add: insertMany_def BookTransaction_def docs_def first_id0)
       (simp add: unreturned_def BookTransactionSchema_def new_doc_def path_value_def
          invalid_paths_def unique_keys_def dup_key_def seeded_transactions_def)
  have c: "seedDatabase env_offline ((seeded env0)(booktransactions := Some (seeded_transactions 0 @ [unreturned]))) =
     (Some ConnectError, (seeded env0)(booktransactions := Some (seeded_transactions 0 @ [unreturned])))"
    by (rule seedDatabase_offline) (simp add: env_offline_def)
  from a b c show ?thesis by simp
qed

subsection \<open>C3: the status of a book\<close>

text \<open>
  C3. The claim reads: the displayed status of a book is a pure function of its count
  (\<^verbatim>\<open>Available\<close> iff the count is positive) and is never stored as an independent field.
  The schema does store it: \<^verbatim>\<open>bookStatus\<close> is a String path with default
  \<^verbatim>\<open>"Available"\<close>, so a new document holds the status its creator gives, or
  \<^verbatim>\<open>"Available"\<close> when none is given, whatever the count. What holds besides: every
  book that a run of \<open>seedDatabase\<close> creates has the stored status \<^verbatim>\<open>"Available"\<close> and
  a positive count, so on those books the stored status agrees with the derived one.
\<close>

theorem C3_status_is_stored:
  assumes "faults_not_26 env" "bcrypt_ok env"
    and "b \<in> set (docs (snd (seedDatabase env d)) books)" "b \<notin> set (docs d books)"
  shows "get (new_doc BookSchema n ob) ''bookStatus'' =
           (if get ob ''bookStatus'' = Undefined then Str ''Available'' else get ob ''bookStatus'') \<and>
         get b ''bookStatus'' = Str ''Available'' \<and>
         (\<exists>k. get b ''bookCountAvailable'' = Num k \<and> 0 < k \<and> get b ''bookStatus'' = Str (derived_status k))"
proof (rule conjI)
  have "get (new_doc BookSchema n ob) ''bookStatus'' =
          path_value (Path ''bookStatus'' TString False False (Str ''Available'')) ob"
    using get_new_doc [of BookSchema "Path ''bookStatus'' TString False False (Str ''Available'')" n ob]
    by (simp add: BookSchema_def)
  then show "get (new_doc BookSchema n ob) ''bookStatus'' =
           (if get ob ''bookStatus'' = Undefined then Str ''Available'' else get ob ''bookStatus'')"
    by (simp add: path_value_def)
next
  have all: "\<forall>b \<in> set (seeded_books (first_id env)). get b ''bookStatus'' = Str ''Available'' \<and>
         (\<exists>k. get b ''bookCountAvailable'' = Num k \<and> 0 < k \<and> get b ''bookStatus'' = Str (derived_status k))"
    by (simp add: seeded_books_def derived_status_def)
  have "b \<in> set (seeded_books (first_id env))"
    using created_in_seeded [OF assms] by (simp add: docs_def)
  with all show "get b ''bookStatus'' = Str ''Available'' \<and>
         (\<exists>k. get b ''bookCountAvailable'' = Num k \<and> 0 < k \<and> get b ''bookStatus'' = Str (derived_status k))"
    by (rule bspec)
qed

text \<open>The last seeded book: one copy, status \<^verbatim>\<open>"Available"\<close>.\<close>

theorem C3_witness:
  "faults_not_26 env0 \<and> bcrypt_ok env0 \<and>
   seeded_books 0 ! 4 \<in> set (docs (snd (seedDatabase env0 db0)) books) \<and>
   seeded_books 0 ! 4 \<notin> set (docs db0 books) \<and>
   get (seeded_books 0 ! 4) ''bookStatus'' = Str ''Available'' \<and>
   get (seeded_books 0 ! 4) ''bookCountAvailable'' = Num 1"
  using C3_status_is_stored [of env0 "seeded_books 0 ! 4" db0]
  by (simp add: env0_ok run0 first_id0 docs_def db0_def seeded_books_def)

text \<open>
  A book created with no copy available and no explicit status is accepted by
  \<^verbatim>\<open>Book.insertMany\<close> and stored with status \<^verbatim>\<open>"Available"\<close>, where the derived
  status is \<^verbatim>\<open>"Unavailable"\<close>.
\<close>

theorem C3_counterexample:
  "get zero_book ''bookCountAvailable'' = Num 0 \<and>
   get zero_book ''bookStatus'' = Str ''Available'' \<and>
   derived_status 0 = ''Unavailable'' \<and>
   insertMany Book [zero_book] db0 = (None, db0(books := Some [zero_book]))"
  by (simp add: zero_book_def BookSchema_def new_doc_def path_value_def derived_status_def
        insertMany_def Book_def invalid_paths_def unique_keys_def dup_key_def docs_def db0_def)

subsection \<open>C4: transactions and the count of a book\<close>

text \<open>
  C4. The claim reads: creating an Issue transaction decrements the book's available
  count, returning it increments the count, and creating a Reservation leaves it
  unchanged. The script has no such ledger: \<^verbatim>\<open>BookTransaction.insertMany\<close> writes the
  \<^verbatim>\<open>booktransactions\<close> collection only. What holds: creating transaction records of
  any type (Issue, Reservation, or an Issue that is already Completed) leaves the
  \<^verbatim>\<open>books\<close> collection as it was, and after a complete seeding run every book still
  has the count it was inserted with (5, 3, 2, 4, 1).
\<close>

theorem C4_transactions_leave_counts:
  assumes "connect_error env = None" "no_faults env" "bcrypt_ok env"
  shows "snd (insertMany BookTransaction ts d) books = d books \<and>
         snd (seedTransactions n bookMap userMap d) books = d books \<and>
         map (\<lambda>b. get b ''bookCountAvailable'') (docs (snd (seedDatabase env d)) books) =
           [Num 5, Num 3, Num 2, Num 4, Num 1] \<and>
         map (\<lambda>b. get b ''bookCountAvailable'') (booksData categoryMap) =
           [Num 5, Num 3, Num 2, Num 4, Num 1]"
proof -
  have "snd (insertMany BookTransaction ts d) books = d books" for ts
    by (rule insertMany_frame) (simp add: BookTransaction_def)
  moreover have "map (\<lambda>b. get b ''bookCountAvailable'') (docs (snd (seedDatabase env d)) books) =
           [Num 5, Num 3, Num 2, Num 4, Num 1]"
    by (simp add: seedDatabase_complete [OF assms] docs_seeded seeded_books_def)
  moreover have "map (\<lambda>b. get b ''bookCountAvailable'') (booksData categoryMap) =
           [Num 5, Num 3, Num 2, Num 4, Num 1]"
    by (simp add: booksData_def)
  ultimately show ?thesis by (simp add: seedTransactions_def)
qed

text \<open>
  An Issue transaction inserted next to a book, and the counts after a complete run of
  the sample environment.
\<close>

theorem C4_witness:
  "connect_error env0 = None \<and> no_faults env0 \<and> bcrypt_ok env0 \<and>
   snd (insertMany BookTransaction [an_issue] db_zero) books = db_zero books \<and>
   map (\<lambda>b. get b ''bookCountAvailable'') (docs (snd (seedDatabase env0 db_zero)) books) =
     [Num 5, Num 3, Num 2, Num 4, Num 1]"
  using C4_transactions_leave_counts [where env = env0 and ts = "[an_issue]" and d = db_zero]
  by (simp add: env0_ok)

text \<open>
  After a complete run the first transaction is an Issue of the book with identifier 11;
  that book was inserted with count 5 and still has count 5.
\<close>

theorem C4_counterexample:
  "fst (seedDatabase env0 db0) = None \<and>
   get (docs (snd (seedDatabase env0 db0)) booktransactions ! 0) ''transactionType'' = Str ''Issue'' \<and>
   get (docs (snd (seedDatabase env0 db0)) booktransactions ! 0) ''bookId'' = Oid 11 \<and>
   get (docs (snd (seedDatabase env0 db0)) books ! 0) ''_id'' = Oid 11 \<and>
   get (booksData [] ! 0) ''bookCountAvailable'' = Num 5 \<and>
   get (docs (snd (seedDatabase env0 db0)) books ! 0) ''bookCountAvailable'' = Num 5"
  by (simp add: run0 docs_seeded first_id0 seeded_transactions_def seeded_books_def booksData_def)

subsection \<open>C5: what the seeding run creates\<close>

text \<open>
  C5. The claim reads: the seeding program populates only Book, Category and User rows
  and creates no transaction records and sets no transaction statuses. The script does
  seed transactions. What holds: a complete run leaves exactly the documents of
  \<open>seeded\<close> in the four collections, each written by one \<^verbatim>\<open>insertMany\<close>; among
  them are three BookTransaction records (Issue, Reservation, Issue) with statuses
  Active, Active and Completed; and no ledger logic runs: every book keeps the count of
  its literal and an empty \<^verbatim>\<open>transactions\<close> list, and every user keeps empty
  \<^verbatim>\<open>activeTransactions\<close> and \<^verbatim>\<open>prevTransactions\<close> lists and 0 points.
\<close>

theorem C5_seeding_creates_transactions:
  assumes "connect_error env = None" "no_faults env" "bcrypt_ok env"
  shows "seedDatabase env d = (None, seeded env) \<and>
         map (\<lambda>t. get t ''transactionType'') (docs (seeded env) booktransactions) =
           [Str ''Issue'', Str ''Reservation'', Str ''Issue''] \<and>
         map (\<lambda>t. get t ''transactionStatus'') (docs (seeded env) booktransactions) =
           [Str ''Active'', Str ''Active'', Str ''Completed''] \<and>
         map (\<lambda>b. get b ''bookCountAvailable'') (docs (seeded env) books) =
           map (\<lambda>b. get b ''bookCountAvailable'') (booksData []) \<and>
         map (\<lambda>b. get b ''transactions'') (docs (seeded env) books) = replicate 5 (Arr []) \<and>
         map (\<lambda>u. get u ''activeTransactions'') (docs (seeded env) users) = replicate 3 (Arr []) \<and>
         map (\<lambda>u. get u ''prevTransactions'') (docs (seeded env) users) = replicate 3 (Arr []) \<and>
         map (\<lambda>u. get u ''points'') (docs (seeded env) users) = replicate 3 (Num 0)"
proof -
  have "seedDatabase env d = (None, seeded env)"
    by (rule seedDatabase_complete [OF assms])
  moreover have "map (\<lambda>t. get t ''transactionType'') (docs (seeded env) booktransactions) =
           [Str ''Issue'', Str ''Reservation'', Str ''Issue'']"
    by (simp add: docs_seeded seeded_transactions_def)
  moreover have "map (\<lambda>t. get t ''transactionStatus'') (docs (seeded env) booktransactions) =
           [Str ''Active'', Str ''Active'', Str ''Completed'']"
    by (simp add: docs_seeded seeded_transactions_def)
  moreover have "map (\<lambda>b. get b ''bookCountAvailable'') (docs (seeded env) books) =
           map (\<lambda>b. get b ''bookCountAvailable'') (booksData [])"
    by (simp add: docs_seeded seeded_books_def booksData_def)
  moreover have "map (\<lambda>b. get b ''transactions'') (docs (seeded env) books) = replicate 5 (Arr [])"
    by (simp add: docs_seeded seeded_books_def numeral_eq_Suc)
  moreover have "map (\<lambda>u. get u ''activeTransactions'') (docs (seeded env) users) = replicate 3 (Arr [])"
    by (simp add: docs_seeded seeded_users_def numeral_eq_Suc)
  moreover have "map (\<lambda>u. get u ''prevTransactions'') (docs (seeded env) users) = replicate 3 (Arr [])"
    by (simp add: docs_seeded seeded_users_def numeral_eq_Suc)
  moreover have "map (\<lambda>u. get u ''points'') (docs (seeded env) users) = replicate 3 (Num 0)"
    by (simp add: docs_seeded seeded_users_def numeral_eq_Suc)
  ultimately show ?thesis by blast
qed

text \<open>A complete run on a server that already holds a book.\<close>

theorem C5_witness:
  "connect_error env0 = None \<and> no_faults env0 \<and> bcrypt_ok env0 \<and>
   seedDatabase env0 db_old = (None, seeded env0) \<and>
   map (\<lambda>t. get t ''transactionStatus'') (docs (seeded env0) booktransactions) =
     [Str ''Active'', Str ''Active'', Str ''Completed'']"
  using C5_seeding_creates_transactions [of env0 db_old]
  by (simp add: env0_ok)

text \<open>
  On a server without a \<^verbatim>\<open>booktransactions\<close> collection, a complete run leaves three
  transaction records, the third with status Completed and a return date.
\<close>

theorem C5_counterexample:
  "db0 booktransactions = None \<and>
   fst (seedDatabase env0 db0) = None \<and>
   length (docs (snd (seedDatabase env0 db0)) booktransactions) = 3 \<and>
   get (docs (snd (seedDatabase env0 db0)) booktransactions ! 2) ''transactionStatus'' = Str ''Completed'' \<and>
   get (docs (snd (seedDatabase env0 db0)) booktransactions ! 2) ''returnDate'' = Str ''2023-12-05''"
  by (simp add: run0 docs_seeded first_id0 seeded_transactions_def db0_def)

subsection \<open>C6: unique names and emails\<close>




subsection \<open>C7: issuing a book without copies\<close>



subsection \<open>C8: snapshot names\<close>

text \<open>
  C8. The claim reads: for every BookTransaction, \<^verbatim>\<open>bookName\<close> and
  \<^verbatim>\<open>borrowerName\<close> equal the names of the referenced book and user at creation. The
  schema ties the two fields to nothing: they are required Strings that the creator
  writes by hand. What holds: for every BookTransaction record that a run of
  \<open>seedDatabase\<close> creates, the \<^verbatim>\<open>bookName\<close> field equals the \<^verbatim>\<open>bookName\<close> of the
  book whose \<^verbatim>\<open>_id\<close> is the record's \<^verbatim>\<open>bookId\<close>, and the \<^verbatim>\<open>borrowerName\<close> field
  equals the \<^verbatim>\<open>userFullName\<close> of the user whose \<^verbatim>\<open>_id\<close> is the record's
  \<^verbatim>\<open>borrowerId\<close>: such a book and such a user exist, and every book and user with
  that identifier has that name. Creating the records (\<open>seedTransactions\<close>) changes
  neither collection, so the names are those at the moment of creation.
\<close>

theorem C8_snapshot_names:
  assumes "faults_not_26 env" "bcrypt_ok env"
    and "t \<in> set (docs (snd (seedDatabase env d)) booktransactions)"
        "t \<notin> set (docs d booktransactions)"
  shows "(\<exists>b \<in> set (docs (snd (seedDatabase env d)) books).
            get b ''_id'' = get t ''bookId'' \<and> get b ''bookName'' = get t ''bookName'') \<and>
         (\<forall>b \<in> set (docs (snd (seedDatabase env d)) books).
            get b ''_id'' = get t ''bookId'' \<longrightarrow> get b ''bookName'' = get t ''bookName'') \<and>
         (\<exists>u \<in> set (docs (snd (seedDatabase env d)) users).
            get u ''_id'' = get t ''borrowerId'' \<and> get u ''userFullName'' = get t ''borrowerName'') \<and>
         (\<forall>u \<in> set (docs (snd (seedDatabase env d)) users).
            get u ''_id'' = get t ''borrowerId'' \<longrightarrow> get u ''userFullName'' = get t ''borrowerName'') \<and>
         snd (seedTransactions n bookMap userMap d') books = d' books \<and>
         snd (seedTransactions n bookMap userMap d') users = d' users"
proof -
  from created_in_seeded [OF assms]
  have t: "t \<in> set (seeded_transactions (first_id env))"
    and r: "seedDatabase env d = (None, seeded env)"
    by (simp_all add: docs_def)
  from seeded_snapshots t
  have names: "(\<exists>b \<in> set (docs (snd (seedDatabase env d)) books).
            get b ''_id'' = get t ''bookId'' \<and> get b ''bookName'' = get t ''bookName'') \<and>
         (\<forall>b \<in> set (docs (snd (seedDatabase env d)) books).
            get b ''_id'' = get t ''bookId'' \<longrightarrow> get b ''bookName'' = get t ''bookName'') \<and>
         (\<exists>u \<in> set (docs (snd (seedDatabase env d)) users).
            get u ''_id'' = get t ''borrowerId'' \<and> get u ''userFullName'' = get t ''borrowerName'') \<and>
         (\<forall>u \<in> set (docs (snd (seedDatabase env d)) users).
            get u ''_id'' = get t ''borrowerId'' \<longrightarrow> get u ''userFullName'' = get t ''borrowerName'')"
    unfolding r snd_conv docs_seeded by (rule bspec)
  have "snd (seedTransactions n bookMap userMap d') books = d' books"
    unfolding seedTransactions_def by (rule insertMany_frame) (simp add: BookTransaction_def)
  moreover have "snd (seedTransactions n bookMap userMap d') users = d' users"
    unfolding seedTransactions_def by (rule insertMany_frame) (simp add: BookTransaction_def)
  ultimately show ?thesis using names by blast
qed

text \<open>The seeded Reservation of Dune.\<close>

theorem C8_witness:
  "faults_not_26 env0 \<and> bcrypt_ok env0 \<and>
   seeded_transactions 0 ! 1 \<in> set (docs (snd (seedDatabase env0 db0)) booktransactions) \<and>
   seeded_transactions 0 ! 1 \<notin> set (docs db0 booktransactions) \<and>
   get (seeded_transactions 0 ! 1) ''bookName'' = Str ''Dune'' \<and>
   get (seeded_transactions 0 ! 1) ''bookId'' = Oid 12 \<and>
   get (seeded_books 0 ! 1) ''_id'' = Oid 12 \<and>
   get (seeded_books 0 ! 1) ''bookName'' = Str ''Dune'' \<and>
   seeded_books 0 ! 1 \<in> set (docs (snd (seedDatabase env0 db0)) books)"
proof -
  have h3: "seeded_transactions 0 ! 1 \<in> set (docs (snd (seedDatabase env0 db0)) booktransactions)"
    by (simp add: run0 docs_seeded first_id0 seeded_transactions_def)
  have h4: "seeded_transactions 0 ! 1 \<notin> set (docs db0 booktransactions)"
    by (simp add: docs_def db0_def)
  have rest: "get (seeded_transactions 0 ! 1) ''bookName'' = Str ''Dune'' \<and>
   get (seeded_transactions 0 ! 1) ''bookId'' = Oid 12 \<and>
   get (seeded_books 0 ! 1) ''_id'' = Oid 12 \<and>
   get (seeded_books 0 ! 1) ''bookName'' = Str ''Dune'' \<and>
   seeded_books 0 ! 1 \<in> set (docs (snd (seedDatabase env0 db0)) books)"
    by (simp add: run0 docs_seeded first_id0 seeded_transactions_def seeded_books_def)
  from C8_snapshot_names [OF env0_ok(3) env0_ok(4) h3 h4] env0_ok h3 h4 rest show ?thesis
    by blast
qed

text \<open>
  A record that references the first seeded book and the first seeded user but names
  another book and another borrower is accepted by \<^verbatim>\<open>BookTransaction.insertMany\<close> on
  the seeded database.
\<close>

theorem C8_counterexample:
  "get misnamed ''bookId'' = Oid 11 \<and>
   get (hd (docs (seeded env0) books)) ''_id'' = Oid 11 \<and>
   get (hd (docs (seeded env0) books)) ''bookName'' = Str ''The Lord of the Rings'' \<and>
   get misnamed ''bookName'' = Str ''Dune'' \<and>
   get misnamed ''borrowerId'' = Oid 8 \<and>
   get (hd (docs (seeded env0) users)) ''_id'' = Oid 8 \<and>
   get (hd (docs (seeded env0) users)) ''userFullName'' = Str ''John Doe'' \<and>
   get misnamed ''borrowerName'' = Str ''Jane Smith'' \<and>
   insertMany BookTransaction [misnamed] (seeded env0) =
     (None, (seeded env0)(booktransactions := Some (seeded_transactions 0 @ [misnamed])))"
proof -
  have a: "get misnamed ''bookId'' = Oid 11" "get misnamed ''bookName'' = Str ''Dune''"
          "get misnamed ''borrowerId'' = Oid 8" "get misnamed ''borrowerName'' = Str ''Jane Smith''"
    by (simp_all add: misnamed_def BookTransactionSchema_def new_doc_def path_value_def)
  have b: "get (hd (docs (seeded env0) books)) ''_id'' = Oid 11"
          "get (hd (docs (seeded env0) books)) ''bookName'' = Str ''The Lord of the Rings''"
    by (simp_all add: docs_seeded first_id0 seeded_books_def)
  have c: "get (hd (docs (seeded env0) users)) ''_id'' = Oid 8"
          "get (hd (docs (seeded env0) users)) ''userFullName'' = Str ''John Doe''"
    by (simp_all add: docs_seeded first_id0 seeded_users_def)
  have d: "insertMany BookTransaction [misnamed] (seeded env0) =
     (None, (seeded env0)(booktransactions := Some (seeded_transactions 0 @ [misnamed])))"
    by (simp add: insertMany_def BookTransaction_def docs_def first_id0)
       (simp add: misnamed_def BookTransactionSchema_def new_doc_def path_value_def
          invalid_paths_def unique_keys_def dup_key_def seeded_transactions_def)
  from a b c d show ?thesis by simp
qed

subsection \<open>C9: collections are dropped first\<close>

text \<open>
  C9. The claim reads: every run first drops the four collections before inserting any
  data, so that all earlier records are destroyed; code 26 is tolerated and any other
  drop error aborts the seeding. A run that cannot connect drops nothing and leaves the
  database as it was. What holds: every run that has connected drops \<^verbatim>\<open>books\<close>,
  \<^verbatim>\<open>bookcategories\<close>, \<^verbatim>\<open>booktransactions\<close> and \<^verbatim>\<open>users\<close> before it inserts
  anything. When no drop is refused, the database afterwards is \<open>seeded env\<close>, whatever
  it held before, so no earlier record survives. Dropping a collection that does not exist
  throws code 26, which the \<^verbatim>\<open>catch\<close> handler swallows. Any other drop error ends the
  run with that error, and then no record has been inserted: every collection holds no
  record or the records it held before.
\<close>

theorem C9_drops_come_first:
  assumes "faults_not_26 env" "bcrypt_ok env"
  shows "(case connect_error env of
            Some e \<Rightarrow> seedDatabase env d = (Some e, d)
          | None \<Rightarrow>
              (if no_faults env then seedDatabase env d = (None, seeded env)
               else (\<exists>c k. drop_fault env c = Some k \<and> k \<noteq> 26 \<and>
                       fst (seedDatabase env d) = Some (MongoServerError k)) \<and>
                    (\<forall>c. docs (snd (seedDatabase env d)) c = [] \<or>
                         docs (snd (seedDatabase env d)) c = docs d c))) \<and>
         dropCollection env c (d(c := None)) =
           (case drop_fault env c of
              None \<Rightarrow> (Some (MongoServerError 26), d(c := None))
            | Some k \<Rightarrow> (Some (MongoServerError k), d(c := None))) \<and>
         catch26 (Some (MongoServerError 26), d) = (None, d) \<and>
         catch26 (Some (MongoServerError k), d) =
           (if k = 26 then (None, d) else (Some (MongoServerError k), d))"
proof -
  have a: "seedDatabase env d = (None, seeded env)" if "connect_error env = None" "no_faults env"
    using that assms(2) by (rule seedDatabase_complete)
  have b: "(\<exists>c k. drop_fault env c = Some k \<and> k \<noteq> 26 \<and>
                  fst (seedDatabase env d) = Some (MongoServerError k)) \<and>
           (\<forall>c. docs (snd (seedDatabase env d)) c = [] \<or>
                docs (snd (seedDatabase env d)) c = docs d c)"
    if "connect_error env = None" "\<not> no_faults env"
    using assms(1) that by (rule seedDatabase_refused)
  have c: "seedDatabase env d = (Some e, d)" if "connect_error env = Some e" for e
    using that by (rule seedDatabase_offline)
  have e: "dropCollection env c (d(c := None)) =
           (case drop_fault env c of
              None \<Rightarrow> (Some (MongoServerError 26), d(c := None))
            | Some k \<Rightarrow> (Some (MongoServerError k), d(c := None)))"
    by (simp add: dropCollection_def split: option.splits)
  from a b c e show ?thesis
    by (simp add: catch26_code split: option.splits)
qed

text \<open>
  A complete run destroys the book that was there before; a run whose drop of
  \<^verbatim>\<open>users\<close> is refused with code 13 ends with that error after the records of the three
  earlier collections are gone.
\<close>

theorem C9_witness:
  "faults_not_26 env0 \<and> bcrypt_ok env0 \<and> connect_error env0 = None \<and> no_faults env0 \<and>
   db_old books = Some [old_book] \<and>
   seedDatabase env0 db_old = (None, seeded env0) \<and>
   old_book \<notin> set (docs (seeded env0) books) \<and>
   faults_not_26 env_refused \<and> bcrypt_ok env_refused \<and> connect_error env_refused = None \<and>
   fst (seedDatabase env_refused db_old) = Some (MongoServerError 13) \<and>
   docs (snd (seedDatabase env_refused db_old)) books = [] \<and>
   docs (snd (seedDatabase env_refused db_old)) users = docs db_old users"
proof -
  have old: "db_old books = Some [old_book]" "old_book \<notin> set (docs (seeded env0) books)"
    by (simp_all add: db_old_def docs_seeded first_id0 seeded_books_def old_book_def)
  have r: "seedDatabase env_refused db_old =
      background_init env_refused
        (Some (MongoServerError 13),
         db_old(books := None, bookcategories := None, booktransactions := None))"
    by (rule refused_users) (simp_all add: env_refused_ok)
  have r': "fst (seedDatabase env_refused db_old) = Some (MongoServerError 13)"
       "docs (snd (seedDatabase env_refused db_old)) books = []"
       "docs (snd (seedDatabase env_refused db_old)) users = docs db_old users"
    unfolding r background_init_docs background_init_fst by (simp_all add: docs_def)
  from C9_drops_come_first [OF env0_ok(3) env0_ok(4), of db_old]
  have "seedDatabase env0 db_old = (None, seeded env0)"
    by (simp add: env0_ok)
  with env0_ok env_refused_ok old r' show ?thesis
    by simp
qed

text \<open>A run that cannot connect: nothing is dropped and the earlier book is still there.\<close>

theorem C9_counterexample:
  "connect_error env_offline = Some ConnectError \<and>
   db_old books = Some [old_book] \<and>
   seedDatabase env_offline db_old = (Some ConnectError, db_old) \<and>
   old_book \<in> set (docs (snd (seedDatabase env_offline db_old)) books)"
  by (simp add: seedDatabase_offline [OF env_offline_ok] env_offline_ok)
     (simp add: db_old_def docs_def)

subsection \<open>C10: stored passwords\<close>

text \<open>
  C10. For every user document that a run of \<open>seedDatabase\<close> creates, the stored
  \<^verbatim>\<open>password\<close> is the bcrypt hash of the user's plaintext password with the salt that
  the user's own call of \<^verbatim>\<open>bcrypt.genSalt(10)\<close> drew (the \<open>k\<close>-th call for the
  \<open>k\<close>-th user), and the plaintext is not the value of any field of the document.
\<close>

theorem C10_passwords_are_hashed:
  assumes "faults_not_26 env" "bcrypt_ok env"
    and "u \<in> set (docs (snd (seedDatabase env d)) users)" "u \<notin> set (docs d users)"
  shows "\<exists>k pw. k < length usersData \<and>
           get (usersData ! k) ''password'' = Str pw \<and>
           get (usersData ! k) ''userFullName'' = get u ''userFullName'' \<and>
           get u ''password'' = Str (bhash env pw (genSalt env 10 k)) \<and>
           get u ''password'' \<noteq> Str pw \<and>
           Str pw \<notin> snd ` set u"
proof -
  have "u \<in> set (seeded_users env (first_id env))"
    using created_in_seeded [OF assms] by (simp add: docs_def)
  with seeded_passwords [OF assms(2)] show ?thesis by (rule bspec)
qed

text \<open>The first seeded user in the sample environment.\<close>

theorem C10_witness:
  "faults_not_26 env0 \<and> bcrypt_ok env0 \<and>
   hd (seeded_users env0 0) \<in> set (docs (snd (seedDatabase env0 db0)) users) \<and>
   hd (seeded_users env0 0) \<notin> set (docs db0 users) \<and>
   get (hd (seeded_users env0 0)) ''password'' = Str (bhash env0 ''password123'' (genSalt env0 10 0)) \<and>
   get (hd (seeded_users env0 0)) ''password'' \<noteq> Str ''password123''"
proof -
  have h3: "hd (seeded_users env0 0) \<in> set (docs (snd (seedDatabase env0 db0)) users)"
    by (simp add: run0 docs_seeded first_id0 seeded_users_def)
  have h4: "hd (seeded_users env0 0) \<notin> set (docs db0 users)"
    by (simp add: docs_def db0_def)
  have p: "get (hd (seeded_users env0 0)) ''password'' = Str (bhash env0 ''password123'' (genSalt env0 10 0))"
    by (simp add: seeded_users_def)
  have q: "bhash env0 ''password123'' (genSalt env0 10 0) \<noteq> ''password123''"
    by (rule bcrypt_not_plain [OF env0_ok(4)]) simp
  from C10_passwords_are_hashed [OF env0_ok(3) env0_ok(4) h3 h4] env0_ok h3 h4 p q show ?thesis
    by simp
qed

end
